theory Spec2Isabelle
  imports Complex_Main
begin

section \<open>Python primitives used by the sources\<close>

text \<open>
  Python strings are modelled as HOL strings; a character is a code point below 256.
  On that range \<open>str.isspace\<close>, \<open>str.lower\<close> and \<open>int\<close> behave as written here.
  Exceptions are values of \<open>py_error\<close>; the message of the one \<open>ValueError\<close> the
  sources raise themselves is kept, so that it can be told from any other failure.
\<close>

datatype py_error =
    ValueError string
  | IndexError
  | ZeroDivisionError
  | PipelineError
  | LoadError
  | IOError string

abbreviation EmptyInput :: py_error where
  "EmptyInput \<equiv> ValueError ''Input text is empty.''"

definition isspace :: "char \<Rightarrow> bool" where
  "isspace c = ((of_char c :: nat) \<in> {9, 10, 11, 12, 13, 28, 29, 30, 31, 32, 133, 160})"

definition lower_char :: "char \<Rightarrow> char" where
  "lower_char c =
     (let n = (of_char c :: nat)
      in if (65 \<le> n \<and> n \<le> 90) \<or> (192 \<le> n \<and> n \<le> 222 \<and> n \<noteq> 215)
         then char_of (n + 32) else c)"

definition lower :: "string \<Rightarrow> string" where
  "lower s = map lower_char s"

definition strip :: "string \<Rightarrow> string" where
  "strip s = rev (dropWhile isspace (rev (dropWhile isspace s)))"

text \<open>
  \<open>s.split()\<close> without arguments: the maximal runs of non-whitespace characters.
  The first argument is the word being read.
\<close>

fun split_acc :: "string \<Rightarrow> string \<Rightarrow> string list" where
  "split_acc w [] = (if w = [] then [] else [w])"
| "split_acc w (c # cs) =
     (if isspace c then (if w = [] then split_acc [] cs else w # split_acc [] cs)
      else split_acc (w @ [c]) cs)"

definition split_ws :: "string \<Rightarrow> string list" where
  "split_ws s = split_acc [] s"

definition endswith :: "string \<Rightarrow> string \<Rightarrow> bool" where
  "endswith s suf = (length suf \<le> length s \<and> drop (length s - length suf) s = suf)"

definition is_digit :: "char \<Rightarrow> bool" where
  "is_digit c = (48 \<le> (of_char c :: nat) \<and> (of_char c :: nat) \<le> 57)"

text \<open>
  The digits of \<open>int(s)\<close>: decimal digits, with single underscores allowed between two
  digits. The flag says whether the character before was a digit.
\<close>

fun parse_digits :: "bool \<Rightarrow> nat \<Rightarrow> string \<Rightarrow> nat option" where
  "parse_digits prev acc [] = (if prev then Some acc else None)"
| "parse_digits prev acc (c # cs) =
     (if is_digit c then parse_digits True (10 * acc + (of_char c - 48)) cs
      else if c = CHR ''_'' \<and> prev then parse_digits False acc cs
      else None)"

text \<open>
  \<open>int(s)\<close> for a string: \<open>None\<close> stands for the \<open>ValueError\<close> it raises.
  The conversion skips the blanks of the C locale and the two non-ASCII spaces around the
  number, not the separators 28 to 31 that \<open>str.strip\<close> removes. The bound that
  recent interpreters put on the number of digits is not modelled.
\<close>

definition int_blank :: "char \<Rightarrow> bool" where
  "int_blank c = ((of_char c :: nat) \<in> {9, 10, 11, 12, 13, 32, 133, 160})"

definition py_int :: "string \<Rightarrow> int option" where
  "py_int s =
     (case rev (dropWhile int_blank (rev (dropWhile int_blank s))) of
        [] \<Rightarrow> None
      | c # cs \<Rightarrow>
          if c = CHR ''-'' then map_option (\<lambda>n. - int n) (parse_digits False 0 cs)
          else if c = CHR ''+'' then map_option int (parse_digits False 0 cs)
          else map_option int (parse_digits False 0 (c # cs)))"

text \<open>\<open>xs.index(x)\<close>: the first position of \<open>x\<close>; \<open>None\<close> is the \<open>ValueError\<close>.\<close>

fun index_of :: "'a list \<Rightarrow> 'a \<Rightarrow> nat option" where
  "index_of [] x = None"
| "index_of (y # ys) x = (if y = x then Some 0 else map_option Suc (index_of ys x))"

text \<open>\<open>xs[i]\<close> for a non-negative index.\<close>

definition getitem :: "'a list \<Rightarrow> nat \<Rightarrow> py_error + 'a" where
  "getitem xs i = (if i < length xs then Inr (xs ! i) else Inl IndexError)"

text \<open>\<open>del xs[i:j]\<close> for \<open>0 \<le> i \<le> j\<close>; a slice that reaches past the end removes what is there.\<close>

definition del_slice :: "nat \<Rightarrow> nat \<Rightarrow> 'a list \<Rightarrow> 'a list" where
  "del_slice i j xs = take i xs @ drop j xs"

text \<open>\<open>xs[:k]\<close>: a negative bound counts from the end.\<close>

definition slice_to :: "'a list \<Rightarrow> int \<Rightarrow> 'a list" where
  "slice_to xs k = (if 0 \<le> k then take (nat k) xs else take (nat (int (length xs) + k)) xs)"

text \<open>
  \<open>a / b\<close> on integers. The quotient is a Python float in the source; the model computes
  with exact rationals.
\<close>

definition truediv :: "int \<Rightarrow> int \<Rightarrow> py_error + rat" where
  "truediv a b = (if b = 0 then Inl ZeroDivisionError else Inr (of_int a / of_int b))"

section \<open>summarizer.py\<close>

text \<open>
  The Hugging Face pipeline is an external capability: a function from the request it
  is called with to the list of candidates it returns, or \<open>None\<close> when the call raises.
\<close>

record request =
  req_text :: string
  req_max_length :: int
  req_min_length :: int
  req_do_sample :: bool
  req_truncation :: bool

type_synonym pipeline = "request \<Rightarrow> string list option"

record TextSummarizer =
  model_name :: string
  max_length :: int
  min_length :: int
  do_sample :: bool
  pipeline_handle :: pipeline

text \<open>The constructor: \<open>load\<close> is \<open>pipeline("summarization", model=...)\<close>.\<close>

definition TextSummarizer_init ::
  "(string \<Rightarrow> pipeline option) \<Rightarrow> string \<Rightarrow> int \<Rightarrow> int \<Rightarrow> bool \<Rightarrow> py_error + TextSummarizer" where
  "TextSummarizer_init load mn mx mi ds =
     (case load mn of
        None \<Rightarrow> Inl LoadError
      | Some p \<Rightarrow> Inr \<lparr>model_name = mn, max_length = mx, min_length = mi, do_sample = ds,
                       pipeline_handle = p\<rparr>)"

text \<open>
  \<open>summarize\<close> threads the log of the requests sent to the pipeline, so that a theorem
  can say whether the capability was invoked.
\<close>

definition summarize ::
  "TextSummarizer \<Rightarrow> string \<Rightarrow> request list \<Rightarrow> (py_error + string) \<times> request list" where
  "summarize self text calls =
     (if text = [] \<or> strip text = [] then (Inl EmptyInput, calls)
      else
        let req = \<lparr>req_text = text, req_max_length = max_length self,
                   req_min_length = min_length self, req_do_sample = do_sample self,
                   req_truncation = True\<rparr>;
            calls' = calls @ [req]
        in case pipeline_handle self req of
             None \<Rightarrow> (Inl PipelineError, calls')
           | Some [] \<Rightarrow> (Inl IndexError, calls')
           | Some (r # _) \<Rightarrow> (Inr r, calls'))"

definition compute_length_reduction :: "string \<Rightarrow> string \<Rightarrow> py_error + (int \<times> int \<times> rat)" where
  "compute_length_reduction original summary =
     (let orig_len = int (length (split_ws original));
          sum_len = (if summary \<noteq> [] then int (length (split_ws summary)) else 0)
      in if orig_len = 0 then Inr (0, sum_len, 0)
         else case truediv sum_len orig_len of
                Inl e \<Rightarrow> Inl e
              | Inr q \<Rightarrow> Inr (orig_len, sum_len, 1 - q))"

section \<open>The world outside the program\<close>

text \<open>
  What the adapters reach outside the process: the model loader, the file-system
  tests and reads, and the file write. A read gives \<open>Inl\<close> with the message of the
  exception it raises; a write gives \<open>Some\<close> of that message, or \<open>None\<close> on success.
\<close>

record env =
  load :: "string \<Rightarrow> pipeline option"
  isfile :: "string \<Rightarrow> bool"
  read_text :: "string \<Rightarrow> string + string"
  write_text :: "string \<Rightarrow> string \<Rightarrow> string option"

text \<open>
  What a run leaves behind, in order: the lines printed (the three statistics lines keep
  their numbers instead of the formatted text), a file written, and the traceback of an
  exception nobody caught.
\<close>

datatype event =
    Print string
  | PrintOriginalLength int
  | PrintSummaryLength int
  | PrintReduction rat
  | FileWritten string string
  | Traceback py_error

section \<open>summarize\_cli.py\<close>

text \<open>The module-level variables that the flag scans update, with \<open>sys.argv\<close>.\<close>

record cli_state =
  argv :: "string list"
  cli_model_name :: string
  cli_max_length :: int
  cli_min_length :: int
  output_file :: "string option"

datatype sys_exit = SysExit (printed: "string list") (status: int)

definition initial_state :: "string list \<Rightarrow> cli_state" where
  "initial_state args =
     \<lparr>argv = args, cli_model_name = ''facebook/bart-large-cnn'', cli_max_length = 60,
      cli_min_length = 20, output_file = None\<rparr>"

text \<open>
  The two lines every \<open>try\<close> block starts with: \<open>i = sys.argv.index(flag)\<close> and
  the read of \<open>sys.argv[i + 1]\<close>.
\<close>

definition flag_value :: "string list \<Rightarrow> string \<Rightarrow> py_error + (nat \<times> string)" where
  "flag_value args flag =
     (case index_of args flag of
        None \<Rightarrow> Inl (ValueError ''not in list'')
      | Some i \<Rightarrow> (case getitem args (i + 1) of Inl e \<Rightarrow> Inl e | Inr v \<Rightarrow> Inr (i, v)))"

definition scan_model :: "cli_state \<Rightarrow> sys_exit + cli_state" where
  "scan_model st =
     (if ''--model'' \<in> set (argv st) then
        (case flag_value (argv st) ''--model'' of
           Inl e \<Rightarrow> Inl (SysExit [''Usage: --model <bart|distilbart|t5>''] 1)
         | Inr (model_index, v) \<Rightarrow>
             let selected_model = lower v;
                 rest = del_slice model_index (model_index + 2) (argv st)
             in if selected_model = ''bart''
                then Inr (st\<lparr>cli_model_name := ''facebook/bart-large-cnn'', argv := rest\<rparr>)
                else if selected_model = ''distilbart''
                then Inr (st\<lparr>cli_model_name := ''sshleifer/distilbart-cnn-12-6'', argv := rest\<rparr>)
                else if selected_model = ''t5''
                then Inr (st\<lparr>cli_model_name := ''t5-small'', argv := rest\<rparr>)
                else Inl (SysExit [''Unknown model: '' @ selected_model] 1))
      else Inr st)"

definition scan_max :: "cli_state \<Rightarrow> sys_exit + cli_state" where
  "scan_max st =
     (if ''--max'' \<in> set (argv st) then
        (case flag_value (argv st) ''--max'' of
           Inl e \<Rightarrow> Inl (SysExit [''Usage: --max <integer>''] 1)
         | Inr (max_index, v) \<Rightarrow>
             (case py_int v of
                None \<Rightarrow> Inl (SysExit [''Usage: --max <integer>''] 1)
              | Some n \<Rightarrow>
                  Inr (st\<lparr>cli_max_length := n,
                          argv := del_slice max_index (max_index + 2) (argv st)\<rparr>)))
      else Inr st)"

definition scan_min :: "cli_state \<Rightarrow> sys_exit + cli_state" where
  "scan_min st =
     (if ''--min'' \<in> set (argv st) then
        (case flag_value (argv st) ''--min'' of
           Inl e \<Rightarrow> Inl (SysExit [''Usage: --min <integer>''] 1)
         | Inr (min_index, v) \<Rightarrow>
             (case py_int v of
                None \<Rightarrow> Inl (SysExit [''Usage: --min <integer>''] 1)
              | Some n \<Rightarrow>
                  Inr (st\<lparr>cli_min_length := n,
                          argv := del_slice min_index (min_index + 2) (argv st)\<rparr>)))
      else Inr st)"

definition scan_out :: "cli_state \<Rightarrow> sys_exit + cli_state" where
  "scan_out st =
     (if ''--out'' \<in> set (argv st) then
        (case flag_value (argv st) ''--out'' of
           Inl e \<Rightarrow>
             Inl (SysExit [''Output file name missing'', ''Usage: --out <output_filename>''] 1)
         | Inr (out_index, v) \<Rightarrow>
             Inr (st\<lparr>output_file := Some v,
                     argv := del_slice out_index (out_index + 2) (argv st)\<rparr>))
      else Inr st)"

definition check_positional :: "cli_state \<Rightarrow> sys_exit + cli_state" where
  "check_positional st =
     (if length (argv st) < 2 then
        Inl (SysExit [''Usage: '',
                      ''python summarize_cli.py '' @ [CHR 0x22] @ ''your long text here'' @ [CHR 0x22],
                      ''python summarize_cli.py path/to/file.txt''] 1)
      else Inr st)"

text \<open>Lines 12 to 79: the four scans in their order, then the check for a positional.\<close>

definition process_args :: "string list \<Rightarrow> sys_exit + cli_state" where
  "process_args args =
     (case scan_model (initial_state args) of
        Inl x \<Rightarrow> Inl x
      | Inr s1 \<Rightarrow>
     (case scan_max s1 of
        Inl x \<Rightarrow> Inl x
      | Inr s2 \<Rightarrow>
     (case scan_min s2 of
        Inl x \<Rightarrow> Inl x
      | Inr s3 \<Rightarrow>
     (case scan_out s3 of
        Inl x \<Rightarrow> Inl x
      | Inr s4 \<Rightarrow> check_positional s4))))"

text \<open>
  Lines 81 to 93: the input text, with what is printed on the way. \<open>Inl\<close> is the
  message of the exception of a read that fails.
\<close>

definition resolve_input :: "env \<Rightarrow> cli_state \<Rightarrow> event list \<times> (string + string)" where
  "resolve_input e st =
     (let arg_text = concat (drop 1 (argv st))
      in if length (argv st) = 2 \<and> endswith (lower (argv st ! 1)) ''.txt''
            \<and> isfile e (argv st ! 1)
         then ([Print (''Reading text from file: '' @ argv st ! 1)], read_text e (argv st ! 1))
         else ([], Inr arg_text))"

text \<open>Lines 96 to 126: summarise, print the statistics, write the file, print the summary.\<close>

definition report :: "env \<Rightarrow> cli_state \<Rightarrow> string \<Rightarrow> event list \<times> int" where
  "report e st input_text =
     (case TextSummarizer_init (load e) (cli_model_name st) (cli_max_length st)
             (cli_min_length st) False of
        Inl err \<Rightarrow> ([Traceback err], 1)
      | Inr ts \<Rightarrow>
     (case fst (summarize ts input_text []) of
        Inl err \<Rightarrow> ([Traceback err], 1)
      | Inr summary \<Rightarrow>
     (case compute_length_reduction input_text summary of
        Inl err \<Rightarrow> ([Traceback err], 1)
      | Inr (orig_len, sum_len, reduction) \<Rightarrow>
          let stats = [Print ''=== STATS ==='', PrintOriginalLength orig_len,
                       PrintSummaryLength sum_len, PrintReduction (reduction * 100)];
              saved =
                (case output_file st of
                   None \<Rightarrow> []
                 | Some f \<Rightarrow>
                     if f = [] then []
                     else (case write_text e f summary of
                             None \<Rightarrow> [FileWritten f summary,
                                      Print (CHR 0x0A # ''Summary saved to: '' @ f)]
                           | Some msg \<Rightarrow> [Print (''Error writing to file: '' @ msg)]))
          in (stats @ saved @ [Print (CHR 0x0A # ''=== SUMMARY ===''), Print summary], 0))))"

text \<open>The whole script: what it prints and writes, and the exit status of the process.\<close>

definition cli_main :: "env \<Rightarrow> string list \<Rightarrow> event list \<times> int" where
  "cli_main e args =
     (case process_args args of
        Inl x \<Rightarrow> (map Print (printed x), status x)
      | Inr st \<Rightarrow>
          (case resolve_input e st of
             (out, Inl msg) \<Rightarrow> (out @ [Traceback (IOError msg)], 1)
           | (out, Inr input_text) \<Rightarrow>
               (case report e st input_text of (out', code) \<Rightarrow> (out @ out', code))))"

section \<open>app\_gradio.py\<close>

definition build_model_name :: "string \<Rightarrow> string" where
  "build_model_name choice =
     (let choice = lower choice
      in if choice = ''bart'' then ''facebook/bart-large-cnn''
         else if choice = ''distilbart'' then ''sshleifer/distilbart-cnn-12-6''
         else if choice = ''t5'' then ''t5-small''
         else ''facebook/bart-large-cnn'')"

text \<open>
  The three values \<open>summarize_interface\<close> returns: the text of the summary box, the
  statistics (\<open>None\<close> for the empty string) and the visibility of the download button.
  The two lengths are taken as the integers that \<open>int(max_len)\<close> and
  \<open>int(min_len)\<close> give.
\<close>

record gui_result =
  summary_box :: string
  stats_box :: "(int \<times> int \<times> rat) option"
  download_visible :: bool

text \<open>Lines 48 to 56: the source of the text; \<open>Inl\<close> is the early return of line 54.\<close>

definition text_source :: "env \<Rightarrow> string option \<Rightarrow> string option \<Rightarrow> gui_result + string" where
  "text_source e text file_path =
     (case file_path of
        None \<Rightarrow> Inr (case text of None \<Rightarrow> [] | Some t \<Rightarrow> t)
      | Some p \<Rightarrow>
          if p = [] then Inr (case text of None \<Rightarrow> [] | Some t \<Rightarrow> t)
          else (case read_text e p of
                  Inl msg \<Rightarrow> Inl \<lparr>summary_box = ''Error reading file: '' @ msg,
                                  stats_box = None, download_visible = False\<rparr>
                | Inr content \<Rightarrow> Inr content))"

definition summarize_interface ::
  "env \<Rightarrow> string option \<Rightarrow> string option \<Rightarrow> string \<Rightarrow> int \<Rightarrow> int \<Rightarrow> bool \<Rightarrow> request list
     \<Rightarrow> (py_error + gui_result) \<times> request list" where
  "summarize_interface e text file_path model_choice max_len min_len creative_mode calls =
     (case text_source e text file_path of
        Inl r \<Rightarrow> (Inr r, calls)
      | Inr text_content \<Rightarrow>
          if strip text_content = [] then
            (Inr \<lparr>summary_box = ''Please enter some text or upload a .txt file.'',
                  stats_box = None, download_visible = False\<rparr>, calls)
          else
            (case TextSummarizer_init (load e) (build_model_name model_choice) max_len min_len
                    creative_mode of
               Inl err \<Rightarrow> (Inl err, calls)
             | Inr ts \<Rightarrow>
                 (case summarize ts text_content calls of
                    (Inl err, calls') \<Rightarrow> (Inl err, calls')
                  | (Inr summary, calls') \<Rightarrow>
                      (case compute_length_reduction text_content summary of
                         Inl err \<Rightarrow> (Inl err, calls')
                       | Inr stats \<Rightarrow>
                           (Inr \<lparr>summary_box = summary, stats_box = Some stats,
                                 download_visible = True\<rparr>, calls')))))"

section \<open>evaluate\_rouge.py\<close>

record sample =
  sample_id :: string
  sample_text :: string
  reference :: string

text \<open>
  The built-in samples. The typographic apostrophe of the first text lies outside the
  range of characters modelled and is written as the ASCII one. The annotation of the
  list in the source (\<open>List[Dict[str, str]]\<close>, with names the module never
  imports) is not modelled: the definitions describe \<open>main\<close> once the module
  has loaded.
\<close>

definition SAMPLE_DATA :: "sample list" where
  "SAMPLE_DATA =
     [\<lparr>sample_id = ''sample_1'',
       sample_text =
         ''The company announced a new product update on Monday, introducing features aimed at improving '' @
         ''performance and reliability. Executives said the update was shaped by customer feedback and '' @
         ''would roll out gradually over the coming weeks. Analysts expect the changes to strengthen '' @
         ''the product'' @ [CHR 0x27] @ ''s competitiveness, though they cautioned that adoption may vary across regions.'',
       reference =
         ''The company released a product update with new performance and reliability features, rolling '' @
         ''out over the next few weeks after customer feedback.''\<rparr>,
      \<lparr>sample_id = ''sample_2'',
       sample_text =
         ''A research team published findings showing that improved data cleaning and feature engineering '' @
         ''significantly boosted model stability. The authors evaluated multiple configurations and noted '' @
         ''that even small preprocessing changes could affect accuracy. They recommended standardized '' @
         ''evaluation protocols to improve reproducibility across future experiments.'',
       reference =
         ''Researchers found that better preprocessing improves model stability and recommended standardized '' @
         ''evaluation protocols for reproducibility.''\<rparr>,
      \<lparr>sample_id = ''sample_3'',
       sample_text =
         ''During the meeting, stakeholders aligned on priorities for the next quarter. The team will focus '' @
         ''on reducing latency, improving monitoring, and refining the user onboarding flow. A follow-up '' @
         ''session is scheduled to finalize milestones and confirm ownership across engineering and product.'',
       reference =
         ''Stakeholders agreed next-quarter priorities: reduce latency, improve monitoring, and refine onboarding, '' @
         ''with a follow-up to finalize milestones and ownership.''\<rparr>]"

text \<open>The namespace \<open>parse_args\<close> returns.\<close>

record eval_args =
  arg_model :: string
  arg_max :: int
  arg_min :: int
  arg_do_sample :: bool
  arg_limit :: int

definition build_model_name_eval :: "string \<Rightarrow> string" where
  "build_model_name_eval choice =
     (let choice = lower choice
      in if choice = ''bart'' then ''facebook/bart-large-cnn''
         else if choice = ''distilbart'' then ''sshleifer/distilbart-cnn-12-6''
         else if choice = ''t5'' then ''t5-small''
         else ''facebook/bart-large-cnn'')"

text \<open>Line 88: the samples of a run.\<close>

definition select_samples :: "int \<Rightarrow> sample list" where
  "select_samples limit = slice_to SAMPLE_DATA (max 1 (min limit (int (length SAMPLE_DATA))))"

text \<open>
  The loop of lines 95 to 103, with the predictions and references collected so far; an
  exception of \<open>summarize\<close> ends it.
\<close>

fun evaluate_samples ::
  "TextSummarizer \<Rightarrow> sample list \<Rightarrow> string list \<Rightarrow> string list \<Rightarrow> request list
     \<Rightarrow> (py_error + (string list \<times> string list)) \<times> request list" where
  "evaluate_samples ts [] predictions references calls = (Inr (predictions, references), calls)"
| "evaluate_samples ts (s # ss) predictions references calls =
     (case summarize ts (sample_text s) calls of
        (Inl err, calls') \<Rightarrow> (Inl err, calls')
      | (Inr pred, calls') \<Rightarrow>
          evaluate_samples ts ss (predictions @ [pred]) (references @ [reference s]) calls')"

text \<open>\<open>p.replace(". ", ".\n")\<close>.\<close>

fun replace_breaks :: "string \<Rightarrow> string" where
  "replace_breaks (a # b # cs) =
     (if a = CHR ''.'' \<and> b = CHR '' '' then CHR ''.'' # CHR 0x0A # replace_breaks cs
      else a # replace_breaks (b # cs))"
| "replace_breaks cs = cs"

text \<open>
  \<open>main\<close> up to the call of the external scorer: the two lists handed to it.
\<close>

definition main_eval ::
  "env \<Rightarrow> eval_args \<Rightarrow> request list \<Rightarrow> (py_error + (string list \<times> string list)) \<times> request list" where
  "main_eval e args calls =
     (case TextSummarizer_init (load e) (build_model_name_eval (arg_model args)) (arg_max args)
             (arg_min args) (arg_do_sample args) of
        Inl err \<Rightarrow> (Inl err, calls)
      | Inr ts \<Rightarrow>
          (case evaluate_samples ts (select_samples (arg_limit args)) [] [] calls of
             (Inl err, calls') \<Rightarrow> (Inl err, calls')
           | (Inr (predictions, references), calls') \<Rightarrow>
               (Inr (map replace_breaks predictions, map replace_breaks references), calls')))"

section \<open>Notions the properties are stated with\<close>

text \<open>The configuration a run of the command line reaches, with its input text.\<close>

definition cli_config_and_text :: "env \<Rightarrow> string list \<Rightarrow> sys_exit + (cli_state \<times> (string + string))" where
  "cli_config_and_text e args =
     (case process_args args of
        Inl x \<Rightarrow> Inl x
      | Inr st \<Rightarrow> Inr (st, snd (resolve_input e st)))"

definition cli_flags :: "string list" where
  "cli_flags = [''--model'', ''--max'', ''--min'', ''--out'']"

definition known_keywords :: "string list" where
  "known_keywords = [''bart'', ''distilbart'', ''t5'']"







text \<open>
  An argument list seen as flag/value pairs and remaining tokens, in the order they are
  typed.
\<close>

datatype item = Opt string string | Word string

fun tokens :: "item list \<Rightarrow> string list" where
  "tokens [] = []"
| "tokens (Opt f v # xs) = f # v # tokens xs"
| "tokens (Word w # xs) = w # tokens xs"

fun opts :: "item list \<Rightarrow> (string \<times> string) list" where
  "opts [] = []"
| "opts (Opt f v # xs) = (f, v) # opts xs"
| "opts (Word w # xs) = opts xs"

fun words :: "item list \<Rightarrow> string list" where
  "words [] = []"
| "words (Opt f v # xs) = words xs"
| "words (Word w # xs) = w # words xs"

text \<open>
  Every flag is one of the four and occurs once, and no value and no remaining token is
  itself a flag.
\<close>

definition well_formed :: "item list \<Rightarrow> bool" where
  "well_formed xs =
     (distinct (map fst (opts xs))
      \<and> list_all (\<lambda>f. f \<in> set cli_flags) (map fst (opts xs))
      \<and> list_all (\<lambda>v. v \<notin> set cli_flags) (map snd (opts xs))
      \<and> list_all (\<lambda>w. w \<notin> set cli_flags) (words xs))"

text \<open>
  The argument list without the pair of a flag, and the configuration that the pairs and
  the remaining tokens of a well-formed argument list determine: each setting is read
  from the value paired with its flag, whatever the position of the pair.
\<close>

fun remove_opt :: "string \<Rightarrow> item list \<Rightarrow> item list" where
  "remove_opt f [] = []"
| "remove_opt f (Opt g v # xs) = (if g = f then remove_opt f xs else Opt g v # remove_opt f xs)"
| "remove_opt f (Word w # xs) = Word w # remove_opt f xs"

definition config_of :: "(string \<rightharpoonup> string) \<Rightarrow> string \<Rightarrow> string list \<Rightarrow> sys_exit + cli_state" where
  "config_of m prog ws =
     (case (case m ''--model'' of
              None \<Rightarrow> Inr ''facebook/bart-large-cnn''
            | Some v \<Rightarrow>
                if lower v = ''bart'' then Inr ''facebook/bart-large-cnn''
                else if lower v = ''distilbart'' then Inr ''sshleifer/distilbart-cnn-12-6''
                else if lower v = ''t5'' then Inr ''t5-small''
                else Inl (SysExit [''Unknown model: '' @ lower v] 1)) of
        Inl x \<Rightarrow> Inl x
      | Inr mn \<Rightarrow>
     (case (case m ''--max'' of
              None \<Rightarrow> Inr 60
            | Some v \<Rightarrow> (case py_int v of
                           None \<Rightarrow> Inl (SysExit [''Usage: --max <integer>''] 1)
                         | Some n \<Rightarrow> Inr n)) of
        Inl x \<Rightarrow> Inl x
      | Inr mx \<Rightarrow>
     (case (case m ''--min'' of
              None \<Rightarrow> Inr 20
            | Some v \<Rightarrow> (case py_int v of
                           None \<Rightarrow> Inl (SysExit [''Usage: --min <integer>''] 1)
                         | Some n \<Rightarrow> Inr n)) of
        Inl x \<Rightarrow> Inl x
      | Inr mi \<Rightarrow>
          check_positional
            \<lparr>argv = prog # ws, cli_model_name = mn, cli_max_length = mx, cli_min_length = mi,
             output_file = m ''--out''\<rparr>)))"

text \<open>A small world to run the definitions in.\<close>

definition demo_pipeline :: pipeline where
  "demo_pipeline req = Some [take 11 (req_text req)]"

definition demo_env :: env where
  "demo_env =
     \<lparr>load = (\<lambda>m. Some demo_pipeline),
      isfile = (\<lambda>p. p = ''notes.txt''),
      read_text = (\<lambda>p. if p = ''notes.txt'' then Inr ''alpha beta gamma delta''
                        else Inl ''No such file or directory''),
      write_text = (\<lambda>p c. if p = ''summary.txt'' then None else Some ''Permission denied'')\<rparr>"

definition demo_summarizer :: TextSummarizer where
  "demo_summarizer =
     \<lparr>model_name = ''t5-small'', max_length = 60, min_length = 20, do_sample = False,
      pipeline_handle = demo_pipeline\<rparr>"

section \<open>Auxiliary facts\<close>

lemmas cli_defs =
  process_args_def scan_model_def scan_max_def scan_min_def scan_out_def
  check_positional_def initial_state_def flag_value_def getitem_def del_slice_def

lemmas int_defs = py_int_def int_blank_def strip_def isspace_def is_digit_def

lemma strip_Nil_iff: "strip s = [] \<longleftrightarrow> (\<forall>c\<in>set s. isspace c)"
proof
  assume "strip s = []"
  then have "dropWhile isspace (rev (dropWhile isspace s)) = []"
    by (simp add: strip_def)
  then have b: "\<forall>c\<in>set (dropWhile isspace s). isspace c"
    by simp
  have "dropWhile isspace s = []"
  proof (cases "dropWhile isspace s")
    case Nil
    then show ?thesis .
  next
    case (Cons x xs)
    then have "\<not> isspace x"
      using hd_dropWhile [of isspace s] by simp
    moreover have "isspace x"
      using b Cons by simp
    ultimately show ?thesis by simp
  qed
  then show "\<forall>c\<in>set s. isspace c" by simp
next
  assume "\<forall>c\<in>set s. isspace c"
  then show "strip s = []"
    by (auto simp: strip_def dest: set_dropWhileD)
qed


lemma split_acc_Nil_iff: "split_acc w s = [] \<longleftrightarrow> w = [] \<and> (\<forall>c\<in>set s. isspace c)"
  by (induction s arbitrary: w) auto

lemma split_ws_Nil [simp]: "split_ws [] = []"
  by (simp add: split_ws_def)

lemma compute_total: "\<exists>r. compute_length_reduction original summary = Inr r"
  by (cases "summary = []") (simp_all add: compute_length_reduction_def Let_def truediv_def)

lemma index_of_None_iff: "index_of xs x = None \<longleftrightarrow> x \<notin> set xs"
  by (induction xs) auto

lemma index_of_Some: "index_of xs x = Some i \<Longrightarrow> i < length xs \<and> xs ! i = x"
  by (induction xs arbitrary: i) (auto split: if_splits)

lemma flag_value_member:
  assumes "flag_value args flag = Inr (i, v)"
  shows "flag \<in> set args"
proof -
  from assms have "index_of args flag \<noteq> None"
    by (auto simp: flag_value_def split: option.splits)
  then show ?thesis by (simp add: index_of_None_iff)
qed

section \<open>The command line: the scenario of the specification\<close>

text \<open>
  C1 (as amended). Called with \<open>--max\<close>, \<open>80\<close> and the text
  \<open>hello world this is a test\<close> as one argument, and without \<open>--model\<close>, the
  script reaches the maximum 80, the default minimum 20 and the default model, and its
  input text is exactly that argument, in any world. Called with the six words as six
  arguments it reaches the same configuration, and the input text is the six words joined
  without a separator.
\<close>

theorem cli_scenario_single_argument:
  "cli_config_and_text e [''summarize_cli.py'', ''--max'', ''80'', ''hello world this is a test'']
     = Inr (\<lparr>argv = [''summarize_cli.py'', ''hello world this is a test''],
             cli_model_name = ''facebook/bart-large-cnn'', cli_max_length = 80,
             cli_min_length = 20, output_file = None\<rparr>,
            Inr ''hello world this is a test'')
   \<and> cli_config_and_text e
        [''summarize_cli.py'', ''--max'', ''80'', ''hello'', ''world'', ''this'', ''is'', ''a'', ''test'']
     = Inr (\<lparr>argv = [''summarize_cli.py'', ''hello'', ''world'', ''this'', ''is'', ''a'', ''test''],
             cli_model_name = ''facebook/bart-large-cnn'', cli_max_length = 80,
             cli_min_length = 20, output_file = None\<rparr>,
            Inr ''helloworldthisisatest'')"
  by (simp add: cli_config_and_text_def cli_defs int_defs resolve_input_def endswith_def
        lower_def lower_char_def)

text \<open>
  The scenario as the specification words it, the words being separate arguments: the
  input text is not \<open>hello world this is a test\<close>.
\<close>

theorem cli_scenario_counterexample:
  "cli_config_and_text demo_env
     [''summarize_cli.py'', ''--max'', ''80'', ''hello'', ''world'', ''this'', ''is'', ''a'', ''test'']
   \<noteq> Inr (\<lparr>argv = [''summarize_cli.py'', ''hello'', ''world'', ''this'', ''is'', ''a'', ''test''],
             cli_model_name = ''facebook/bart-large-cnn'', cli_max_length = 80,
             cli_min_length = 20, output_file = None\<rparr>,
            Inr ''hello world this is a test'')"
  by (simp add: cli_config_and_text_def cli_defs int_defs resolve_input_def)

section \<open>Resolution of the model keyword\<close>

text \<open>
  C2 (as amended). \<open>build_model_name\<close>, the resolution of the graphical interface and
  of the batch evaluation, is total: every keyword gives one of the three identifiers,
  none of them empty, and a keyword that is none of \<open>bart\<close>, \<open>distilbart\<close>, \<open>t5\<close>
  once put in lower case gives the default identifier. The command line does not fall
  back: when the value of its \<open>--model\<close> flag is such a keyword, it prints
  \<open>Unknown model\<close> and exits with status 1.
\<close>

theorem model_resolution:
  "build_model_name k \<noteq> []
   \<and> build_model_name k \<in> {''facebook/bart-large-cnn'', ''sshleifer/distilbart-cnn-12-6'', ''t5-small''}
   \<and> build_model_name_eval k = build_model_name k
   \<and> (lower k \<notin> set known_keywords \<longrightarrow> build_model_name k = ''facebook/bart-large-cnn'')
   \<and> (lower k \<notin> set known_keywords \<and> flag_value args ''--model'' = Inr (i, k) \<longrightarrow>
        process_args args = Inl (SysExit [''Unknown model: '' @ lower k] 1))"
proof -
  have a: "build_model_name k \<noteq> []"
    by (simp add: build_model_name_def Let_def)
  have b: "build_model_name k
             \<in> {''facebook/bart-large-cnn'', ''sshleifer/distilbart-cnn-12-6'', ''t5-small''}"
    by (simp add: build_model_name_def Let_def)
  have c: "build_model_name_eval k = build_model_name k"
    by (simp add: build_model_name_def build_model_name_eval_def)
  have d: "lower k \<notin> set known_keywords \<longrightarrow> build_model_name k = ''facebook/bart-large-cnn''"
    by (simp add: build_model_name_def Let_def known_keywords_def)
  have e: "lower k \<notin> set known_keywords \<and> flag_value args ''--model'' = Inr (i, k) \<longrightarrow>
             process_args args = Inl (SysExit [''Unknown model: '' @ lower k] 1)"
  proof
    assume h: "lower k \<notin> set known_keywords \<and> flag_value args ''--model'' = Inr (i, k)"
    then have m: "''--model'' \<in> set args"
      using flag_value_member by blast
    from h have u: "lower k \<noteq> ''bart''" "lower k \<noteq> ''distilbart''" "lower k \<noteq> ''t5''"
      by (auto simp: known_keywords_def)
    show "process_args args = Inl (SysExit [''Unknown model: '' @ lower k] 1)"
      using h m u by (simp add: process_args_def scan_model_def initial_state_def Let_def)
  qed
  from a b c d e show ?thesis by blast
qed

theorem model_resolution_witness:
  "build_model_name ''gpt2'' = ''facebook/bart-large-cnn''
   \<and> process_args [''summarize_cli.py'', ''--model'', ''gpt2'', ''some text'']
       = Inl (SysExit [''Unknown model: gpt2''] 1)"
proof -
  have l: "lower ''gpt2'' = ''gpt2''"
    by (simp add: lower_def lower_char_def)
  have k: "lower ''gpt2'' \<notin> set known_keywords"
    by (simp add: l known_keywords_def)
  have f: "flag_value [''summarize_cli.py'', ''--model'', ''gpt2'', ''some text''] ''--model''
             = Inr (1, ''gpt2'')"
    by (simp add: flag_value_def getitem_def)
  show ?thesis
    using model_resolution
      [of "''gpt2''" "[''summarize_cli.py'', ''--model'', ''gpt2'', ''some text'']" 1] k f l
    by simp
qed

text \<open>
  The claim as the specification states it, for the command line: the keyword
  \<open>gpt2\<close> is not resolved to the default identifier, the run ends with status 1.
\<close>

theorem model_resolution_counterexample:
  "process_args [''summarize_cli.py'', ''--model'', ''gpt2'', ''some text'']
     \<noteq> Inr \<lparr>argv = [''summarize_cli.py'', ''some text''],
             cli_model_name = ''facebook/bart-large-cnn'', cli_max_length = 60,
             cli_min_length = 20, output_file = None\<rparr>
   \<and> process_args [''summarize_cli.py'', ''--model'', ''gpt2'', ''some text'']
     = Inl (SysExit [''Unknown model: gpt2''] 1)"
  by (simp add: cli_defs lower_def lower_char_def)

section \<open>The facade and the metric\<close>

text \<open>
  C3. A text that is empty or made of whitespace only makes \<open>summarize\<close> fail with
  the empty-input error, and the log of pipeline requests is left as it was: the
  capability is not invoked. For any other text the result is not that error, and
  exactly one request, carrying the text and the configuration, is sent to the pipeline.
\<close>

theorem summarize_blank:
  "((\<forall>c\<in>set text. isspace c) \<longrightarrow> summarize ts text calls = (Inl EmptyInput, calls)) \<and>
   (\<not> (\<forall>c\<in>set text. isspace c) \<longrightarrow>
      fst (summarize ts text calls) \<noteq> Inl EmptyInput \<and>
      snd (summarize ts text calls) =
        calls @ [\<lparr>req_text = text, req_max_length = max_length ts,
                   req_min_length = min_length ts, req_do_sample = do_sample ts,
                   req_truncation = True\<rparr>])"
proof (cases "\<forall>c\<in>set text. isspace c")
  case True
  then have "strip text = []"
    by (simp add: strip_Nil_iff)
  then show ?thesis
    using True by (simp add: summarize_def)
next
  case False
  then have s: "strip text \<noteq> []"
    by (simp add: strip_Nil_iff)
  then have t: "text \<noteq> []"
    by (auto simp: strip_def)
  show ?thesis
    using False s t
    by (simp add: summarize_def Let_def split: option.splits list.splits)
qed

theorem summarize_blank_witness:
  "summarize demo_summarizer [CHR '' '', CHR 0x09, CHR 0x0A] [] = (Inl EmptyInput, [])
   \<and> summarize demo_summarizer [] [] = (Inl EmptyInput, [])
   \<and> fst (summarize demo_summarizer ''hello world'' []) \<noteq> Inl EmptyInput
   \<and> length (snd (summarize demo_summarizer ''hello world'' [])) = 1"
  using summarize_blank [of "[CHR '' '', CHR 0x09, CHR 0x0A]" demo_summarizer "[]"]
    summarize_blank [of "[]" demo_summarizer "[]"]
    summarize_blank [of "''hello world''" demo_summarizer "[]"]
  by (simp add: isspace_def)



text \<open>
  C5. When the original has no word, \<open>compute_length_reduction\<close> returns 0, the word
  count of the summary and the fraction 0; and on every input it returns a triple, so the
  division is never reached with the divisor 0.
\<close>

theorem reduction_zero_original:
  "(length (split_ws original) = 0 \<longrightarrow>
      compute_length_reduction original summary = Inr (0, int (length (split_ws summary)), 0))
   \<and> (\<exists>r. compute_length_reduction original summary = Inr r)
   \<and> compute_length_reduction original summary \<noteq> Inl ZeroDivisionError"
  by (cases "summary = []") (simp_all add: compute_length_reduction_def Let_def truediv_def)

theorem reduction_zero_original_witness:
  "length (split_ws [CHR '' '', CHR 0x0A]) = 0
   \<and> compute_length_reduction [CHR '' '', CHR 0x0A] ''any summary'' = Inr (0, 2, 0)
   \<and> compute_length_reduction [] [] = Inr (0, 0, 0)"
  using reduction_zero_original [of "[CHR '' '', CHR 0x0A]" "''any summary''"]
    reduction_zero_original [of "[]" "[]"]
  by (simp add: split_ws_def isspace_def)

section \<open>The command line: exit status of the argument phase\<close>











section \<open>The command line: order of the flags\<close>

lemma opts_remove_opt: "opts (remove_opt f xs) = filter (\<lambda>p. fst p \<noteq> f) (opts xs)"
  by (induction f xs rule: remove_opt.induct) auto

lemma words_remove_opt [simp]: "words (remove_opt f xs) = words xs"
  by (induction f xs rule: remove_opt.induct) auto

lemma well_formed_remove_opt [simp]: "well_formed xs \<Longrightarrow> well_formed (remove_opt f xs)"
  by (auto simp: well_formed_def opts_remove_opt distinct_map_filter list_all_iff)

lemma map_of_remove_opt:
  "map_of (opts (remove_opt f xs)) g = (if g = f then None else map_of (opts xs) g)"
  by (induction f xs rule: remove_opt.induct) auto

lemma remove_opt_absent: "map_of (opts xs) f = None \<Longrightarrow> remove_opt f xs = xs"
  by (induction f xs rule: remove_opt.induct) (auto split: if_splits)

lemma tokens_no_opts: "opts xs = [] \<Longrightarrow> tokens xs = words xs"
  by (induction xs rule: tokens.induct) auto

lemma absent_tokens:
  assumes "well_formed xs" and "f \<in> set cli_flags" and "map_of (opts xs) f = None"
  shows "f \<notin> set (tokens xs)"
  using assms
  by (induction xs rule: tokens.induct) (auto simp: well_formed_def split: if_splits)

lemma present_tokens:
  assumes "well_formed xs" and "f \<in> set cli_flags" and "map_of (opts xs) f = Some v"
  shows "\<exists>i. index_of (tokens xs) f = Some i \<and> i + 1 < length (tokens xs)
           \<and> tokens xs ! (i + 1) = v
           \<and> take i (tokens xs) @ drop (i + 2) (tokens xs) = tokens (remove_opt f xs)"
  using assms
proof (induction xs rule: tokens.induct)
  case 1
  then show ?case by simp
next
  case (2 g u xs)
  show ?case
  proof (cases "g = f")
    case True
    with 2 have "map_of (opts xs) f = None" "u = v"
      by (auto simp: well_formed_def map_of_eq_None_iff)
    then show ?thesis using True by (simp add: remove_opt_absent)
  next
    case False
    with 2 have wf: "well_formed xs" and m: "map_of (opts xs) f = Some v" and uf: "u \<noteq> f"
      by (auto simp: well_formed_def)
    from "2.IH" [OF wf "2.prems"(2) m] obtain i where
      i: "index_of (tokens xs) f = Some i" "i + 1 < length (tokens xs)"
         "tokens xs ! (i + 1) = v"
         "take i (tokens xs) @ drop (i + 2) (tokens xs) = tokens (remove_opt f xs)"
      by blast
    show ?thesis
      using False uf i by (intro exI [of _ "Suc (Suc i)"]) simp
  qed
next
  case (3 w xs)
  then have wf: "well_formed xs" and m: "map_of (opts xs) f = Some v" and wf': "w \<noteq> f"
    by (auto simp: well_formed_def)
  from "3.IH" [OF wf "3.prems"(2) m] obtain i where
    i: "index_of (tokens xs) f = Some i" "i + 1 < length (tokens xs)"
       "tokens xs ! (i + 1) = v"
       "take i (tokens xs) @ drop (i + 2) (tokens xs) = tokens (remove_opt f xs)"
    by blast
  show ?case
    using wf' i by (intro exI [of _ "Suc i"]) simp
qed

text \<open>What a scan finds in a well-formed argument list.\<close>

lemma scan_lookup:
  assumes "well_formed xs" and "prog \<notin> set cli_flags" and "f \<in> set cli_flags"
  shows "(map_of (opts xs) f = None \<and> f \<notin> set (prog # tokens xs) \<and> remove_opt f xs = xs)
       \<or> (\<exists>i v. map_of (opts xs) f = Some v \<and> f \<in> set (prog # tokens xs)
            \<and> flag_value (prog # tokens xs) f = Inr (i, v)
            \<and> del_slice i (i + 2) (prog # tokens xs) = prog # tokens (remove_opt f xs))"
proof (cases "map_of (opts xs) f")
  case None
  then show ?thesis
    using absent_tokens [OF assms(1) assms(3) None] assms(2,3) remove_opt_absent [OF None]
    by auto
next
  case (Some v)
  from present_tokens [OF assms(1) assms(3) Some] obtain i where
    i: "index_of (tokens xs) f = Some i" "i + 1 < length (tokens xs)"
       "tokens xs ! (i + 1) = v"
       "take i (tokens xs) @ drop (i + 2) (tokens xs) = tokens (remove_opt f xs)"
    by blast
  have pf: "prog \<noteq> f" using assms(2,3) by auto
  have mem: "f \<in> set (tokens xs)"
    using i(1) index_of_None_iff [of "tokens xs" f] by auto
  have fv: "flag_value (prog # tokens xs) f = Inr (Suc i, v)"
    using pf i by (simp add: flag_value_def getitem_def)
  have ds: "del_slice (Suc i) (Suc i + 2) (prog # tokens xs) = prog # tokens (remove_opt f xs)"
    using i(4) by (simp add: del_slice_def)
  show ?thesis using Some mem fv ds by auto
qed


lemma scan_model_tokens:
  assumes "well_formed xs" and "prog \<notin> set cli_flags" and "argv st = prog # tokens xs"
  shows "scan_model st =
     (case map_of (opts xs) ''--model'' of
        None \<Rightarrow> Inr (st\<lparr>argv := prog # tokens (remove_opt ''--model'' xs)\<rparr>)
      | Some v \<Rightarrow>
          if lower v = ''bart''
          then Inr (st\<lparr>cli_model_name := ''facebook/bart-large-cnn'',
                       argv := prog # tokens (remove_opt ''--model'' xs)\<rparr>)
          else if lower v = ''distilbart''
          then Inr (st\<lparr>cli_model_name := ''sshleifer/distilbart-cnn-12-6'',
                       argv := prog # tokens (remove_opt ''--model'' xs)\<rparr>)
          else if lower v = ''t5''
          then Inr (st\<lparr>cli_model_name := ''t5-small'',
                       argv := prog # tokens (remove_opt ''--model'' xs)\<rparr>)
          else Inl (SysExit [''Unknown model: '' @ lower v] 1))"
proof -
  have f: "''--model'' \<in> set cli_flags" by (simp add: cli_flags_def)
  have same: "st\<lparr>argv := prog # tokens xs\<rparr> = st"
    using assms(3) by (metis cli_state.surjective cli_state.update_convs(1))
  from scan_lookup [OF assms(1,2) f] show ?thesis
  proof
    assume "map_of (opts xs) ''--model'' = None \<and> ''--model'' \<notin> set (prog # tokens xs)
              \<and> remove_opt ''--model'' xs = xs"
    then show ?thesis using assms(3) same by (simp add: scan_model_def)
  next
    assume "\<exists>i v. map_of (opts xs) ''--model'' = Some v \<and> ''--model'' \<in> set (prog # tokens xs)
            \<and> flag_value (prog # tokens xs) ''--model'' = Inr (i, v)
            \<and> del_slice i (i + 2) (prog # tokens xs) = prog # tokens (remove_opt ''--model'' xs)"
    then show ?thesis using assms(3) by (auto simp: scan_model_def Let_def)
  qed
qed

lemma scan_max_tokens:
  assumes "well_formed xs" and "prog \<notin> set cli_flags" and "argv st = prog # tokens xs"
  shows "scan_max st =
     (case map_of (opts xs) ''--max'' of
        None \<Rightarrow> Inr (st\<lparr>argv := prog # tokens (remove_opt ''--max'' xs)\<rparr>)
      | Some v \<Rightarrow>
          (case py_int v of
             None \<Rightarrow> Inl (SysExit [''Usage: --max <integer>''] 1)
           | Some n \<Rightarrow> Inr (st\<lparr>cli_max_length := n,
                                argv := prog # tokens (remove_opt ''--max'' xs)\<rparr>)))"
proof -
  have f: "''--max'' \<in> set cli_flags" by (simp add: cli_flags_def)
  have same: "st\<lparr>argv := prog # tokens xs\<rparr> = st"
    using assms(3) by (metis cli_state.surjective cli_state.update_convs(1))
  from scan_lookup [OF assms(1,2) f] show ?thesis
  proof
    assume "map_of (opts xs) ''--max'' = None \<and> ''--max'' \<notin> set (prog # tokens xs)
              \<and> remove_opt ''--max'' xs = xs"
    then show ?thesis using assms(3) same by (simp add: scan_max_def)
  next
    assume "\<exists>i v. map_of (opts xs) ''--max'' = Some v \<and> ''--max'' \<in> set (prog # tokens xs)
            \<and> flag_value (prog # tokens xs) ''--max'' = Inr (i, v)
            \<and> del_slice i (i + 2) (prog # tokens xs) = prog # tokens (remove_opt ''--max'' xs)"
    then show ?thesis using assms(3) by (auto simp: scan_max_def split: option.splits)
  qed
qed

lemma scan_min_tokens:
  assumes "well_formed xs" and "prog \<notin> set cli_flags" and "argv st = prog # tokens xs"
  shows "scan_min st =
     (case map_of (opts xs) ''--min'' of
        None \<Rightarrow> Inr (st\<lparr>argv := prog # tokens (remove_opt ''--min'' xs)\<rparr>)
      | Some v \<Rightarrow>
          (case py_int v of
             None \<Rightarrow> Inl (SysExit [''Usage: --min <integer>''] 1)
           | Some n \<Rightarrow> Inr (st\<lparr>cli_min_length := n,
                                argv := prog # tokens (remove_opt ''--min'' xs)\<rparr>)))"
proof -
  have f: "''--min'' \<in> set cli_flags" by (simp add: cli_flags_def)
  have same: "st\<lparr>argv := prog # tokens xs\<rparr> = st"
    using assms(3) by (metis cli_state.surjective cli_state.update_convs(1))
  from scan_lookup [OF assms(1,2) f] show ?thesis
  proof
    assume "map_of (opts xs) ''--min'' = None \<and> ''--min'' \<notin> set (prog # tokens xs)
              \<and> remove_opt ''--min'' xs = xs"
    then show ?thesis using assms(3) same by (simp add: scan_min_def)
  next
    assume "\<exists>i v. map_of (opts xs) ''--min'' = Some v \<and> ''--min'' \<in> set (prog # tokens xs)
            \<and> flag_value (prog # tokens xs) ''--min'' = Inr (i, v)
            \<and> del_slice i (i + 2) (prog # tokens xs) = prog # tokens (remove_opt ''--min'' xs)"
    then show ?thesis using assms(3) by (auto simp: scan_min_def split: option.splits)
  qed
qed

lemma scan_out_tokens:
  assumes "well_formed xs" and "prog \<notin> set cli_flags" and "argv st = prog # tokens xs"
  shows "scan_out st =
     Inr (st\<lparr>output_file := (case map_of (opts xs) ''--out'' of
                                None \<Rightarrow> output_file st | Some v \<Rightarrow> Some v),
             argv := prog # tokens (remove_opt ''--out'' xs)\<rparr>)"
proof -
  have f: "''--out'' \<in> set cli_flags" by (simp add: cli_flags_def)
  have same: "st\<lparr>argv := prog # tokens xs\<rparr> = st"
    using assms(3) by (metis cli_state.surjective cli_state.update_convs(1))
  from scan_lookup [OF assms(1,2) f] show ?thesis
  proof
    assume "map_of (opts xs) ''--out'' = None \<and> ''--out'' \<notin> set (prog # tokens xs)
              \<and> remove_opt ''--out'' xs = xs"
    then show ?thesis using assms(3) same by (simp add: scan_out_def)
  next
    assume "\<exists>i v. map_of (opts xs) ''--out'' = Some v \<and> ''--out'' \<in> set (prog # tokens xs)
            \<and> flag_value (prog # tokens xs) ''--out'' = Inr (i, v)
            \<and> del_slice i (i + 2) (prog # tokens xs) = prog # tokens (remove_opt ''--out'' xs)"
    then show ?thesis using assms(3) by (auto simp: scan_out_def)
  qed
qed

lemma all_removed:
  assumes "well_formed xs"
  shows "tokens (remove_opt ''--out'' (remove_opt ''--min'' (remove_opt ''--max''
           (remove_opt ''--model'' xs)))) = words xs"
proof -
  let ?ys = "remove_opt ''--out'' (remove_opt ''--min'' (remove_opt ''--max''
               (remove_opt ''--model'' xs)))"
  have "opts ?ys = []"
    using assms
    by (auto simp: opts_remove_opt well_formed_def cli_flags_def list_all_iff filter_empty_conv)
  then have "tokens ?ys = words ?ys" by (rule tokens_no_opts)
  then show ?thesis by simp
qed

lemma process_args_tokens:
  assumes "well_formed xs" and "prog \<notin> set cli_flags"
  shows "process_args (prog # tokens xs) = config_of (map_of (opts xs)) prog (words xs)"
proof -
  let ?x1 = "remove_opt ''--model'' xs"
  let ?x2 = "remove_opt ''--max'' ?x1"
  let ?x3 = "remove_opt ''--min'' ?x2"
  have w1: "well_formed ?x1" and w2: "well_formed ?x2" and w3: "well_formed ?x3"
    using assms(1) by simp_all
  have m: "map_of (opts ?x1) ''--max'' = map_of (opts xs) ''--max''"
    "map_of (opts ?x2) ''--min'' = map_of (opts xs) ''--min''"
    "map_of (opts ?x3) ''--out'' = map_of (opts xs) ''--out''"
    by (simp_all add: map_of_remove_opt)
  note sc = scan_model_tokens [OF assms(1,2)] scan_max_tokens [OF w1 assms(2)]
    scan_min_tokens [OF w2 assms(2)] scan_out_tokens [OF w3 assms(2)]
  show ?thesis
    unfolding process_args_def config_of_def
    by (simp add: sc m all_removed [OF assms(1)] initial_state_def
          split: option.splits)
qed

text \<open>
  C7 (as amended). Take two argument lists made of the same flag/value pairs and the
  same remaining tokens, the pairs placed in any order and at any position among the
  tokens. If every flag is one of the four and occurs once, and no value, no remaining
  token and not the script name is itself a flag, then the argument phase gives the same
  result on both lists (the same configuration and remaining arguments, or the same
  exit), and so the same input text.
\<close>

theorem flag_order:
  assumes "well_formed xs" and "well_formed ys"
    and "set (opts xs) = set (opts ys)" and "words xs = words ys"
    and "prog \<notin> set cli_flags"
  shows "process_args (prog # tokens xs) = process_args (prog # tokens ys)
         \<and> cli_config_and_text e (prog # tokens xs) = cli_config_and_text e (prog # tokens ys)"
proof -
  have "map_of (opts xs) = map_of (opts ys)"
    using assms(1,2,3) by (simp add: well_formed_def map_of_inject_set)
  then have "process_args (prog # tokens xs) = process_args (prog # tokens ys)"
    using assms by (simp add: process_args_tokens)
  then show ?thesis by (simp add: cli_config_and_text_def)
qed


theorem flag_order_witness:
  "process_args [''summarize_cli.py'', ''--model'', ''t5'', ''--max'', ''80'', ''some text'']
     = process_args [''summarize_cli.py'', ''--max'', ''80'', ''--model'', ''t5'', ''some text'']
   \<and> cli_config_and_text demo_env
         [''summarize_cli.py'', ''--model'', ''t5'', ''--max'', ''80'', ''some text'']
     = cli_config_and_text demo_env
         [''summarize_cli.py'', ''--max'', ''80'', ''--model'', ''t5'', ''some text'']"
proof -
  let ?xs = "[Opt ''--model'' ''t5'', Opt ''--max'' ''80'', Word ''some text'']"
  let ?ys = "[Opt ''--max'' ''80'', Opt ''--model'' ''t5'', Word ''some text'']"
  have 1: "well_formed ?xs" and 2: "well_formed ?ys"
    by (simp_all add: well_formed_def cli_flags_def)
  have 3: "set (opts ?xs) = set (opts ?ys)" by auto
  have 4: "words ?xs = words ?ys" by simp
  have 5: "''summarize_cli.py'' \<notin> set cli_flags" by (simp add: cli_flags_def)
  show ?thesis
    using flag_order [OF 1 2 3 4 5, of demo_env] by simp
qed

text \<open>
  The claim as the specification states it fails on two pairs of argument lists with the
  same pairs in another order: a flag given twice, and an output file named like a flag.
\<close>

theorem flag_order_counterexample:
  "process_args [''summarize_cli.py'', ''--max'', ''80'', ''--max'', ''90'', ''text'']
     = Inr \<lparr>argv = [''summarize_cli.py'', ''--max'', ''90'', ''text''],
             cli_model_name = ''facebook/bart-large-cnn'', cli_max_length = 80,
             cli_min_length = 20, output_file = None\<rparr>
   \<and> process_args [''summarize_cli.py'', ''--max'', ''90'', ''--max'', ''80'', ''text'']
     = Inr \<lparr>argv = [''summarize_cli.py'', ''--max'', ''80'', ''text''],
             cli_model_name = ''facebook/bart-large-cnn'', cli_max_length = 90,
             cli_min_length = 20, output_file = None\<rparr>
   \<and> process_args [''summarize_cli.py'', ''--out'', ''--max'', ''--max'', ''5'', ''text'']
     = Inl (SysExit [''Usage: --max <integer>''] 1)
   \<and> process_args [''summarize_cli.py'', ''--max'', ''5'', ''--out'', ''--max'', ''text'']
     = Inr \<lparr>argv = [''summarize_cli.py'', ''text''],
             cli_model_name = ''facebook/bart-large-cnn'', cli_max_length = 5,
             cli_min_length = 20, output_file = Some ''--max''\<rparr>"
  by (simp add: cli_defs int_defs)

section \<open>The graphical interface: the file before the text box\<close>

text \<open>
  C8. When a non-empty file path is given and the file can be read, the text that
  \<open>summarize_interface\<close> works on is the content of the file: the result is the
  same whatever the text box holds, and the only request the pipeline can receive carries
  the content of the file.
\<close>

theorem file_priority:
  assumes "p \<noteq> []" and "read_text e p = Inr content"
  shows "text_source e text (Some p) = Inr content
         \<and> summarize_interface e text (Some p) m mx mi cm calls
             = summarize_interface e None (Some p) m mx mi cm calls
         \<and> (snd (summarize_interface e text (Some p) m mx mi cm calls) = calls
            \<or> snd (summarize_interface e text (Some p) m mx mi cm calls)
                = calls @ [\<lparr>req_text = content, req_max_length = mx, req_min_length = mi,
                             req_do_sample = cm, req_truncation = True\<rparr>])"
proof -
  have a: "text_source e t (Some p) = Inr content" for t
    using assms by (simp add: text_source_def)
  have b: "summarize_interface e text (Some p) m mx mi cm calls
             = summarize_interface e None (Some p) m mx mi cm calls"
    by (simp add: summarize_interface_def a)
  have c: "snd (summarize_interface e text (Some p) m mx mi cm calls) = calls
            \<or> snd (summarize_interface e text (Some p) m mx mi cm calls)
                = calls @ [\<lparr>req_text = content, req_max_length = mx, req_min_length = mi,
                             req_do_sample = cm, req_truncation = True\<rparr>]"
  proof (cases "strip content = []")
    case True
    then show ?thesis by (simp add: summarize_interface_def a)
  next
    case False
    then have ne: "content \<noteq> []" by (auto simp: strip_def)
    show ?thesis
    proof (cases "load e (build_model_name m)")
      case None
      then show ?thesis using False
        by (simp add: summarize_interface_def a TextSummarizer_init_def)
    next
      case (Some pl)
      then show ?thesis using False ne
        by (auto simp: summarize_interface_def a TextSummarizer_init_def summarize_def Let_def
              split: option.splits list.splits sum.splits prod.splits)
    qed
  qed
  from a b c show ?thesis by blast
qed

theorem file_priority_witness:
  "text_source demo_env (Some ''free text typed in the box'') (Some ''notes.txt'')
     = Inr ''alpha beta gamma delta''
   \<and> map req_text (snd (summarize_interface demo_env (Some ''free text typed in the box'')
        (Some ''notes.txt'') ''t5'' 120 40 False [])) = [''alpha beta gamma delta'']"
proof -
  have r: "read_text demo_env ''notes.txt'' = Inr ''alpha beta gamma delta''"
    by (simp add: demo_env_def)
  have n: "''notes.txt'' \<noteq> []" by simp
  have s: "snd (summarize_interface demo_env (Some ''free text typed in the box'')
        (Some ''notes.txt'') ''t5'' 120 40 False []) \<noteq> []"
    by (simp add: summarize_interface_def text_source_def demo_env_def strip_def isspace_def
        TextSummarizer_init_def summarize_def demo_pipeline_def Let_def
        compute_length_reduction_def split_ws_def truediv_def)
  show ?thesis
    using file_priority [OF n r, of "Some ''free text typed in the box''" "''t5''" 120 40 False "[]"] s
    by auto
qed

section \<open>The command line: a write that fails\<close>

text \<open>
  C9. When the arguments are accepted, the summary is computed and the write to the file
  of \<open>--out\<close> raises, the run goes on: it prints the error message after the
  statistics, then the summary, and ends with status 0.
\<close>

theorem write_failure_continues:
  assumes "process_args args = Inr st"
    and "resolve_input e st = (out, Inr input_text)"
    and "TextSummarizer_init (load e) (cli_model_name st) (cli_max_length st) (cli_min_length st) False = Inr ts"
    and "fst (summarize ts input_text []) = Inr summary"
    and "output_file st = Some f" and "f \<noteq> []"
    and "write_text e f summary = Some msg"
  shows "\<exists>orig_len sum_len reduction.
           compute_length_reduction input_text summary = Inr (orig_len, sum_len, reduction)
           \<and> cli_main e args =
               (out @ [Print ''=== STATS ==='', PrintOriginalLength orig_len,
                       PrintSummaryLength sum_len, PrintReduction (reduction * 100),
                       Print (''Error writing to file: '' @ msg),
                       Print (CHR 0x0A # ''=== SUMMARY ===''), Print summary], 0)"
proof -
  obtain r where "compute_length_reduction input_text summary = Inr r"
    using compute_total by blast
  then obtain ol sl red where c: "compute_length_reduction input_text summary = Inr (ol, sl, red)"
    by (cases r) auto
  have "cli_main e args =
               (out @ [Print ''=== STATS ==='', PrintOriginalLength ol,
                       PrintSummaryLength sl, PrintReduction (red * 100),
                       Print (''Error writing to file: '' @ msg),
                       Print (CHR 0x0A # ''=== SUMMARY ===''), Print summary], 0)"
    using assms c by (simp add: cli_main_def report_def Let_def)
  with c show ?thesis by blast
qed

theorem write_failure_continues_witness:
  "cli_main demo_env [''summarize_cli.py'', ''--out'', ''/readonly/s.txt'', ''hello world this is a test'']
     = ([Print ''=== STATS ==='', PrintOriginalLength 6, PrintSummaryLength 2,
         PrintReduction (200 / 3), Print ''Error writing to file: Permission denied'',
         Print (CHR 0x0A # ''=== SUMMARY ===''), Print ''hello world''], 0)"
proof -
  let ?args = "[''summarize_cli.py'', ''--out'', ''/readonly/s.txt'', ''hello world this is a test'']"
  let ?st = "\<lparr>argv = [''summarize_cli.py'', ''hello world this is a test''],
             cli_model_name = ''facebook/bart-large-cnn'', cli_max_length = 60,
             cli_min_length = 20, output_file = Some ''/readonly/s.txt''\<rparr>"
  let ?ts = "\<lparr>model_name = ''facebook/bart-large-cnn'', max_length = 60, min_length = 20,
              do_sample = False, pipeline_handle = demo_pipeline\<rparr>"
  have 1: "process_args ?args = Inr ?st"
    by (simp add: cli_defs)
  have 2: "resolve_input demo_env ?st = ([], Inr ''hello world this is a test'')"
    by (simp add: resolve_input_def endswith_def lower_def lower_char_def)
  have 3: "TextSummarizer_init (load demo_env) (cli_model_name ?st) (cli_max_length ?st)
             (cli_min_length ?st) False = Inr ?ts"
    by (simp add: TextSummarizer_init_def demo_env_def)
  have 4: "fst (summarize ?ts ''hello world this is a test'' []) = Inr ''hello world''"
    by (simp add: summarize_def strip_def isspace_def demo_pipeline_def)
  have 5: "output_file ?st = Some ''/readonly/s.txt''" by simp
  have 6: "''/readonly/s.txt'' \<noteq> []" by simp
  have 7: "write_text demo_env ''/readonly/s.txt'' ''hello world'' = Some ''Permission denied''"
    by (simp add: demo_env_def)
  have 8: "compute_length_reduction ''hello world this is a test'' ''hello world'' = Inr (6, 2, 2/3)"
    by (simp add: compute_length_reduction_def split_ws_def isspace_def truediv_def)
  from write_failure_continues [OF 1 2 3 4 5 6 7]
  obtain ol sl red where
    c: "compute_length_reduction ''hello world this is a test'' ''hello world'' = Inr (ol, sl, red)"
    and m: "cli_main demo_env ?args =
              ([] @ [Print ''=== STATS ==='', PrintOriginalLength ol, PrintSummaryLength sl,
                     PrintReduction (red * 100), Print (''Error writing to file: '' @ ''Permission denied''),
                     Print (CHR 0x0A # ''=== SUMMARY ===''), Print ''hello world''], 0)"
    by blast
  from c 8 have "ol = 6" "sl = 2" "red = 2 / 3" by simp_all
  with m show ?thesis by simp
qed

section \<open>The batch evaluation: the limit\<close>







end
